theory Spec2Isabelle
  imports Complex_Main
begin

section \<open>Python values\<close>

text \<open>
  The session, the settings and the token endpoint's JSON hold dynamically typed Python
  values. Numbers are Python 3 numbers: \<open>PInt\<close> an unbounded int, \<open>PFloat\<close> a float,
  read as the real number it denotes (the rounding of float arithmetic, NaN and the
  infinities are not modelled). A bool counts as the int 0 or 1 in arithmetic and in
  comparisons, as in Python.
\<close>

datatype pyval =
    PNone
  | PBool bool
  | PInt int
  | PFloat real
  | PStr string
  | PList "pyval list"

datatype error =
    ImproperlyConfigured string
  | PermissionDenied string
  | TypeError
  | AttributeError
  | ValueError
  | ImportError string
  | NoReverseMatch string
  | RequestException string

text \<open>Truth value testing (\<open>if x:\<close>, \<open>not x\<close>, the left operand of \<open>and\<close>).\<close>

fun truthy :: "pyval \<Rightarrow> bool" where
  "truthy PNone = False"
| "truthy (PBool b) = b"
| "truthy (PInt i) = (i \<noteq> 0)"
| "truthy (PFloat r) = (r \<noteq> 0)"
| "truthy (PStr s) = (s \<noteq> [])"
| "truthy (PList xs) = (xs \<noteq> [])"

fun int_of :: "pyval \<Rightarrow> int option" where
  "int_of (PBool b) = Some (if b then 1 else 0)"
| "int_of (PInt i) = Some i"
| "int_of _ = None"

fun num_of :: "pyval \<Rightarrow> real option" where
  "num_of (PBool b) = Some (if b then 1 else 0)"
| "num_of (PInt i) = Some (of_int i)"
| "num_of (PFloat r) = Some r"
| "num_of _ = None"

text \<open>
  \<open>a - b\<close> and \<open>a + b\<close> on numbers: an int when both operands are ints, a float otherwise,
  \<open>TypeError\<close> when an operand is not a number. (The only \<open>+\<close> of the program has a
  difference on its left, so the concatenation of strings and lists never applies.)
\<close>

definition num_sub :: "pyval \<Rightarrow> pyval \<Rightarrow> error + pyval" where
  "num_sub a b =
     (case (int_of a, int_of b) of
        (Some x, Some y) \<Rightarrow> Inr (PInt (x - y))
      | _ \<Rightarrow>
        (case (num_of a, num_of b) of
           (Some x, Some y) \<Rightarrow> Inr (PFloat (x - y))
         | _ \<Rightarrow> Inl TypeError))"

definition num_add :: "pyval \<Rightarrow> pyval \<Rightarrow> error + pyval" where
  "num_add a b =
     (case (int_of a, int_of b) of
        (Some x, Some y) \<Rightarrow> Inr (PInt (x + y))
      | _ \<Rightarrow>
        (case (num_of a, num_of b) of
           (Some x, Some y) \<Rightarrow> Inr (PFloat (x + y))
         | _ \<Rightarrow> Inl TypeError))"

text \<open>
  \<open>a > now\<close> where \<open>now\<close> is the float \<open>time.time()\<close> returned: \<open>TypeError\<close> when \<open>a\<close>
  is not a number (Python 3; \<open>None > 1.0\<close> and \<open>'x' > 1.0\<close> raise).
\<close>

definition gt_float :: "pyval \<Rightarrow> real \<Rightarrow> error + bool" where
  "gt_float a now = (case num_of a of Some x \<Rightarrow> Inr (x > now) | None \<Rightarrow> Inl TypeError)"

text \<open>\<open>list(x)\<close>: a list as it is, a string as its characters, \<open>TypeError\<close> otherwise.\<close>

fun py_list :: "pyval \<Rightarrow> error + pyval list" where
  "py_list (PList xs) = Inr xs"
| "py_list (PStr s) = Inr (map (\<lambda>c. PStr [c]) s)"
| "py_list _ = Inl TypeError"

text \<open>\<open>d.get(k)\<close> and \<open>d.get(k, default)\<close> on a dict.\<close>

definition dict_get :: "(string \<rightharpoonup> pyval) \<Rightarrow> string \<Rightarrow> pyval" where
  "dict_get d k = (case d k of Some v \<Rightarrow> v | None \<Rightarrow> PNone)"

definition dict_get_default :: "(string \<rightharpoonup> pyval) \<Rightarrow> string \<Rightarrow> pyval \<Rightarrow> pyval" where
  "dict_get_default d k dflt = (case d k of Some v \<Rightarrow> v | None \<Rightarrow> dflt)"

text \<open>\<open>s.startswith('/')\<close> and \<open>s.upper()\<close> (on the ASCII letters of an HTTP method).\<close>

definition startswith_slash :: "string \<Rightarrow> bool" where
  "startswith_slash s = (case s of [] \<Rightarrow> False | c # _ \<Rightarrow> c = CHR ''/'')"

definition upper_char :: "char \<Rightarrow> char" where
  "upper_char c =
     (case map_of (zip ''abcdefghijklmnopqrstuvwxyz'' ''ABCDEFGHIJKLMNOPQRSTUVWXYZ'') c of
        Some u \<Rightarrow> u
      | None \<Rightarrow> c)"

definition upper :: "string \<Rightarrow> string" where
  "upper s = map upper_char s"


section \<open>Requests, responses and the world around a request\<close>

type_synonym session = "string \<rightharpoonup> pyval"
type_synonym params = "(string \<times> pyval) list"
type_synonym pyclass = string

text \<open>
  What the middleware reads of Django's \<open>HttpRequest\<close>: \<open>request.method\<close>,
  \<open>request.path\<close>, \<open>request.get_full_path()\<close>, \<open>request.is_ajax()\<close>,
  \<open>request.user.is_authenticated\<close>, the scheme and host \<open>absolutify\<close> builds absolute
  URIs from, and the mutable \<open>request.session\<close>.
\<close>

record request =
  "method" :: string
  path :: string
  full_path :: string
  is_ajax :: bool
  origin :: string
  user_is_authenticated :: bool
  session :: session

text \<open>
  The state a call threads: the request (its session and user are mutated), the number
  of \<open>time.time()\<close> calls and of \<open>get_random_string\<close> calls made so far, and the log of
  the POSTs sent to the token endpoint.
\<close>

record world =
  req :: request
  ticks :: nat
  draws :: nat
  posts :: "(pyval \<times> params) list"

text \<open>
  The two responses the middleware builds, as the constructor calls of the source:
  \<open>HttpResponseRedirect(url)\<close>, and \<open>JsonResponse(data, status=s)\<close> with the headers
  set on it afterwards (\<open>response[name] = value\<close>).
\<close>

datatype response =
    HttpResponseRedirect string
  | JsonResponse params nat "(string \<times> string) list"

fun status_code :: "response \<Rightarrow> nat" where
  "status_code (HttpResponseRedirect url) = 302"
| "status_code (JsonResponse d s hs) = s"

fun set_header :: "response \<Rightarrow> string \<Rightarrow> string \<Rightarrow> response" where
  "set_header (JsonResponse d s hs) name v = JsonResponse d s (hs @ [(name, v)])"
| "set_header r name v = r"

fun header :: "response \<Rightarrow> string \<Rightarrow> string option" where
  "header (HttpResponseRedirect url) name = (if name = ''Location'' then Some url else None)"
| "header (JsonResponse d s hs) name = map_of (rev hs) name"

fun json_body :: "response \<Rightarrow> params option" where
  "json_body (HttpResponseRedirect url) = None"
| "json_body (JsonResponse d s hs) = Some d"

text \<open>
  What \<open>requests.post\<close> gives: a response with a status code and a body, or an exception
  of the transport (\<open>requests.exceptions.RequestException\<close>: connection error, timeout).
  \<open>response.json()\<close> raises \<open>ValueError\<close> on a body that is not JSON, and \<open>.get\<close> on
  JSON that is not an object raises \<open>AttributeError\<close>.
\<close>

datatype json = JsonObject "string \<rightharpoonup> pyval" | JsonOther | NotJson

datatype post_result = Response nat json | Raises string

text \<open>
  Everything the middleware calls and does not define: the settings, the clock, the
  random source, Django's URL resolver, \<open>import_string\<close> and \<open>issubclass\<close>, the helpers of
  \<open>mozilla_django_oidc.utils\<close> and \<open>mozilla_django_oidc.auth\<close>, \<open>urlencode\<close>, \<open>str()\<close> of a
  value that is not a string, Django's \<open>logout\<close> and the HTTP client. They are parameters
  of the model: \<open>clock env k\<close> is what the \<open>k\<close>-th call of \<open>time.time()\<close> returns,
  \<open>random_string env k n\<close> what the \<open>k\<close>-th call of \<open>get_random_string\<close> returns for length
  \<open>n\<close>, \<open>reverse env name\<close> is \<open>None\<close> where \<open>reverse\<close> raises \<open>NoReverseMatch\<close>,
  \<open>import_string env p\<close> is \<open>None\<close> where it raises \<open>ImportError\<close>.
\<close>

record env =
  settings :: "string \<rightharpoonup> pyval"
  clock :: "nat \<Rightarrow> real"
  random_string :: "nat \<Rightarrow> nat \<Rightarrow> string"
  reverse :: "string \<Rightarrow> string option"
  import_string :: "string \<Rightarrow> pyclass option"
  issubclass :: "pyclass \<Rightarrow> pyclass \<Rightarrow> bool"
  absolutify :: "string \<Rightarrow> string \<Rightarrow> string"
  add_state_and_nonce_to_session :: "session \<Rightarrow> string \<Rightarrow> params \<Rightarrow> session"
  urlencode :: "params \<Rightarrow> string"
  py_str :: "pyval \<Rightarrow> string"
  store_expiration_times :: "session \<Rightarrow> session"
  store_tokens :: "session \<Rightarrow> pyval \<Rightarrow> pyval \<Rightarrow> pyval \<Rightarrow> session"
  django_logout :: "request \<Rightarrow> request"
  requests_post :: "pyval \<Rightarrow> params \<Rightarrow> post_result"

definition BACKEND_SESSION_KEY :: string where
  "BACKEND_SESSION_KEY = ''_auth_user_backend''"

definition OIDCAuthenticationBackend :: pyclass where
  "OIDCAuthenticationBackend = ''mozilla_django_oidc.auth.OIDCAuthenticationBackend''"

text \<open>
  Modelled from the spec: \<open>import_from_settings\<close> of \<open>mozilla_django_oidc.utils\<close>, which
  is not among the sources. The spec gives it as the configuration lookup
  \<open>get(key, default?)\<close> that fails with \<open>ImproperlyConfigured\<close> if a required key is
  missing and no default is given.
\<close>

definition import_from_settings :: "env \<Rightarrow> string \<Rightarrow> error + pyval" where
  "import_from_settings env attr =
     (case settings env attr of
        Some v \<Rightarrow> Inr v
      | None \<Rightarrow> Inl (ImproperlyConfigured (''Setting '' @ attr @ '' not found'')))"

definition import_from_settings_default :: "env \<Rightarrow> string \<Rightarrow> pyval \<Rightarrow> pyval" where
  "import_from_settings_default env attr dflt =
     (case settings env attr of Some v \<Rightarrow> v | None \<Rightarrow> dflt)"

definition time_time :: "env \<Rightarrow> world \<Rightarrow> real \<times> world" where
  "time_time env w = (clock env (ticks w), w\<lparr>ticks := Suc (ticks w)\<rparr>)"

definition get_random_string :: "env \<Rightarrow> pyval \<Rightarrow> world \<Rightarrow> (error + string) \<times> world" where
  "get_random_string env len w =
     (case int_of len of
        None \<Rightarrow> (Inl TypeError, w)
      | Some n \<Rightarrow> (Inr (random_string env (draws w) (nat n)), w\<lparr>draws := Suc (draws w)\<rparr>))"

definition reverse_name :: "env \<Rightarrow> pyval \<Rightarrow> error + string" where
  "reverse_name env v =
     (case v of
        PStr name \<Rightarrow>
          (case reverse env name of Some p \<Rightarrow> Inr p | None \<Rightarrow> Inl (NoReverseMatch name))
      | _ \<Rightarrow> Inl (NoReverseMatch (py_str env v)))"

definition str_of :: "env \<Rightarrow> pyval \<Rightarrow> string" where
  "str_of env v = (case v of PStr s \<Rightarrow> s | _ \<Rightarrow> py_str env v)"


section \<open>SessionRefresh\<close>

text \<open>
  \<open>exempt_urls\<close> (a \<open>cached_property\<close>: computed at the first use and kept; the settings
  and the URL resolver do not change while the process runs, so the cached set is the
  computed one). The list comprehension stops at the first entry that raises.
\<close>

fun resolve_urls :: "env \<Rightarrow> pyval list \<Rightarrow> error + string list" where
  "resolve_urls env [] = Inr []"
| "resolve_urls env (u # us) =
     (case (case u of
              PStr url \<Rightarrow> if startswith_slash url then Inr url else reverse_name env u
            | _ \<Rightarrow> Inl AttributeError) of
        Inl e \<Rightarrow> Inl e
      | Inr p \<Rightarrow>
        (case resolve_urls env us of
           Inl e \<Rightarrow> Inl e
         | Inr ps \<Rightarrow> Inr (p # ps)))"

definition exempt_urls :: "env \<Rightarrow> error + string set" where
  "exempt_urls env =
     (case py_list (import_from_settings_default env ''OIDC_EXEMPT_URLS'' (PList [])) of
        Inl e \<Rightarrow> Inl e
      | Inr urls \<Rightarrow>
        (case resolve_urls env
                (urls @ [PStr ''oidc_authentication_init'',
                         PStr ''oidc_authentication_callback'',
                         PStr ''oidc_logout'']) of
           Inl e \<Rightarrow> Inl e
         | Inr ps \<Rightarrow> Inr (set ps)))"

text \<open>
  \<open>is_refreshable_url\<close>: the backend is imported first; the \<open>and\<close> chain then evaluates
  \<open>self.exempt_urls\<close> only when the three operands before it are true.
\<close>

definition is_refreshable_url :: "env \<Rightarrow> request \<Rightarrow> bool \<Rightarrow> error + bool" where
  "is_refreshable_url env request get_only =
     (let backend_session = dict_get (session request) BACKEND_SESSION_KEY in
      case (if truthy backend_session
            then (case backend_session of
                    PStr dotted \<Rightarrow>
                      (case import_string env dotted of
                         None \<Rightarrow> Inl (ImportError dotted)
                       | Some auth_backend \<Rightarrow>
                           Inr (issubclass env auth_backend OIDCAuthenticationBackend))
                  | _ \<Rightarrow> Inl AttributeError)
            else Inr True) of
        Inl e \<Rightarrow> Inl e
      | Inr is_oidc_enabled \<Rightarrow>
          if (\<not> get_only \<or> method request = ''GET'')
             \<and> user_is_authenticated request
             \<and> is_oidc_enabled
          then (case exempt_urls env of
                  Inl e \<Rightarrow> Inl e
                | Inr urls \<Rightarrow> Inr (path request \<notin> urls))
          else Inr False)"

definition is_expired :: "env \<Rightarrow> world \<Rightarrow> (error + bool) \<times> world" where
  "is_expired env w =
     (let expiration = dict_get_default (session (req w)) ''oidc_id_token_expiration'' (PInt 0);
          (now, w1) = time_time env w
      in case gt_float expiration now of
           Inl e \<Rightarrow> (Inl e, w1)
         | Inr still_valid \<Rightarrow> if still_valid then (Inr False, w1) else (Inr True, w1))"

definition SessionRefresh_process_request ::
    "env \<Rightarrow> world \<Rightarrow> (error + response option) \<times> world" where
  "SessionRefresh_process_request env w =
     (case is_refreshable_url env (req w) True of
        Inl e \<Rightarrow> (Inl e, w)
      | Inr refreshable \<Rightarrow>
     if \<not> refreshable then (Inr None, w) else
     (case is_expired env w of
        (Inl e, w1) \<Rightarrow> (Inl e, w1)
      | (Inr expired, w1) \<Rightarrow>
     if \<not> expired then (Inr None, w1) else
     (case import_from_settings env ''OIDC_OP_AUTHORIZATION_ENDPOINT'' of
        Inl e \<Rightarrow> (Inl e, w1)
      | Inr auth_url \<Rightarrow>
     (case import_from_settings env ''OIDC_RP_CLIENT_ID'' of
        Inl e \<Rightarrow> (Inl e, w1)
      | Inr client_id \<Rightarrow>
     (case get_random_string env
             (import_from_settings_default env ''OIDC_STATE_SIZE'' (PInt 32)) w1 of
        (Inl e, w2) \<Rightarrow> (Inl e, w2)
      | (Inr state, w2) \<Rightarrow>
     (case reverse_name env
             (import_from_settings_default env ''OIDC_AUTHENTICATION_CALLBACK_URL''
                (PStr ''oidc_authentication_callback'')) of
        Inl e \<Rightarrow> (Inl e, w2)
      | Inr callback \<Rightarrow>
     (let params =
            [(''response_type'', PStr ''code''),
             (''client_id'', client_id),
             (''redirect_uri'', PStr (absolutify env (origin (req w2)) callback)),
             (''state'', PStr state),
             (''scope'', import_from_settings_default env ''OIDC_RP_SCOPES''
                           (PStr ''openid email'')),
             (''prompt'', PStr ''none'')]
      in
     (case (if truthy (import_from_settings_default env ''OIDC_USE_NONCE'' (PBool True))
            then (case get_random_string env
                         (import_from_settings_default env ''OIDC_NONCE_SIZE'' (PInt 32)) w2 of
                    (Inl e, w3) \<Rightarrow> (Inl e, w3)
                  | (Inr nonce, w3) \<Rightarrow> (Inr (params @ [(''nonce'', PStr nonce)]), w3))
            else (Inr params, w2)) of
        (Inl e, w3) \<Rightarrow> (Inl e, w3)
      | (Inr params', w3) \<Rightarrow>
     (let s1 = add_state_and_nonce_to_session env (session (req w3)) state params';
          s2 = s1(''oidc_login_next'' \<mapsto> PStr (full_path (req w3)));
          w4 = w3\<lparr>req := (req w3)\<lparr>session := s2\<rparr>\<rparr>;
          query = urlencode env params';
          redirect_url = str_of env auth_url @ ''?'' @ query
      in if is_ajax (req w4)
         then (Inr (Some (set_header
                            (JsonResponse [(''refresh_url'', PStr redirect_url)] 403 [])
                            ''refresh_url'' redirect_url)), w4)
         else (Inr (Some (HttpResponseRedirect redirect_url)), w4))))))))))"


section \<open>RefreshOIDCToken\<close>

text \<open>
  \<open>_is_refresh_token_expired\<close>. The operands of the deadline are evaluated from left to
  right: the session's expiration, then the required setting (which may be missing), then
  the subtraction and the addition. The clock is read only when the expiry seconds are set.
\<close>

definition is_refresh_token_expired :: "env \<Rightarrow> world \<Rightarrow> (error + bool) \<times> world" where
  "is_refresh_token_expired env w =
     (let refresh_toke_expire_time =
            import_from_settings_default env ''OIDC_RENEW_REFRESH_TOKEN_EXPIRY_SECONDS'' (PInt 0)
      in
      if \<not> truthy refresh_toke_expire_time then (Inr False, w) else
      (let expiration =
             dict_get_default (session (req w)) ''oidc_id_token_expiration'' (PInt 0)
       in
       case import_from_settings env ''OIDC_RENEW_ID_TOKEN_EXPIRY_SECONDS'' of
         Inl e \<Rightarrow> (Inl e, w)
       | Inr id_token_expiry \<Rightarrow>
       (case num_sub expiration id_token_expiry of
          Inl e \<Rightarrow> (Inl e, w)
        | Inr difference \<Rightarrow>
       (case num_add difference refresh_toke_expire_time of
          Inl e \<Rightarrow> (Inl e, w)
        | Inr refresh_token_expire \<Rightarrow>
       (let (now, w1) = time_time env w
        in case gt_float refresh_token_expire now of
             Inl e \<Rightarrow> (Inl e, w1)
           | Inr still_valid \<Rightarrow>
               if still_valid then (Inr False, w1) else (Inr True, w1))))))"

text \<open>
  \<open>_handle_refresh_token_expire\<close>. A raise after \<open>django_logout(request)\<close> leaves the
  request logged out: the error comes with the world it is raised in.
\<close>

definition handle_refresh_token_expire ::
    "env \<Rightarrow> world \<Rightarrow> (error + response option) \<times> world" where
  "handle_refresh_token_expire env w =
     (let renew_refresh_token =
            import_from_settings_default env ''OIDC_RENEW_REFRESH_TOKEN'' (PBool False)
      in
      if truthy renew_refresh_token \<and> upper (method (req w)) = ''GET''
      then SessionRefresh_process_request env w
      else (Inl (PermissionDenied ''Refresh token expired on POST.''),
            w\<lparr>req := django_logout env (req w)\<rparr>))"

text \<open>
  \<open>RefreshOIDCToken.process_request\<close>. \<open>requests.post\<close> is called outside any \<open>try\<close>: an
  exception it raises leaves the method.
\<close>

definition RefreshOIDCToken_process_request ::
    "env \<Rightarrow> world \<Rightarrow> (error + response option) \<times> world" where
  "RefreshOIDCToken_process_request env w =
     (case is_refreshable_url env (req w) False of
        Inl e \<Rightarrow> (Inl e, w)
      | Inr refreshable \<Rightarrow>
     if \<not> refreshable then (Inr None, w) else
     (case is_expired env w of
        (Inl e, w1) \<Rightarrow> (Inl e, w1)
      | (Inr expired, w1) \<Rightarrow>
     if \<not> expired then (Inr None, w1) else
     (case import_from_settings env ''OIDC_OP_TOKEN_ENDPOINT'' of
        Inl e \<Rightarrow> (Inl e, w1)
      | Inr token_url \<Rightarrow>
     (case import_from_settings env ''OIDC_RP_CLIENT_ID'' of
        Inl e \<Rightarrow> (Inl e, w1)
      | Inr client_id \<Rightarrow>
     (case import_from_settings env ''OIDC_RP_CLIENT_SECRET'' of
        Inl e \<Rightarrow> (Inl e, w1)
      | Inr client_secret \<Rightarrow>
     (let refresh_token = dict_get (session (req w1)) ''oidc_refresh_token''
      in
     (case is_refresh_token_expired env w1 of
        (Inl e, w2) \<Rightarrow> (Inl e, w2)
      | (Inr refresh_expired, w2) \<Rightarrow>
     if refresh_expired then handle_refresh_token_expire env w2 else
     if \<not> truthy refresh_token
     then (Inl (ImproperlyConfigured ''Refresh token missing.''), w2) else
     (let token_payload =
            [(''grant_type'', PStr ''refresh_token''),
             (''client_id'', client_id),
             (''client_secret'', client_secret),
             (''refresh_token'', refresh_token)];
          w3 = w2\<lparr>posts := posts w2 @ [(token_url, token_payload)]\<rparr>
      in
     (case requests_post env token_url token_payload of
        Raises msg \<Rightarrow> (Inl (RequestException msg), w3)
      | Response status body \<Rightarrow>
     if status \<noteq> 200 then handle_refresh_token_expire env w3 else
     (case body of
        NotJson \<Rightarrow> (Inl ValueError, w3)
      | JsonOther \<Rightarrow> (Inl AttributeError, w3)
      | JsonObject token_info \<Rightarrow>
     (let id_token = dict_get token_info ''id_token'';
          access_token = dict_get token_info ''access_token'';
          new_refresh_token = dict_get token_info ''refresh_token'';
          s1 = store_expiration_times env (session (req w3));
          s2 = store_tokens env s1 access_token id_token new_refresh_token
      in (Inr None, w3\<lparr>req := (req w3)\<lparr>session := s2\<rparr>\<rparr>))))))))))))"


section \<open>A sample deployment\<close>

text \<open>
  One concrete environment and request, on which the theorems below are instantiated:
  an OIDC provider at \<open>op.example\<close>, the three views of the package routed under
  \<open>/oidc/\<close>, a clock that reads 1000 and advances by one second a call, a session of the
  OIDC backend whose ID token expired at 500, and a token endpoint that answers 200 with
  a fresh token set. The helpers that are not among the sources are stand-ins here:
  \<open>urlencode\<close> joins \<open>key=value\<close> without escaping, \<open>store_tokens\<close> writes the three
  token keys and \<open>store_expiration_times\<close> sets the expiration to 2000.
\<close>

definition sample_settings :: "string \<rightharpoonup> pyval" where
  "sample_settings =
     [''OIDC_OP_AUTHORIZATION_ENDPOINT'' \<mapsto> PStr ''https://op.example/authorize'',
      ''OIDC_OP_TOKEN_ENDPOINT'' \<mapsto> PStr ''https://op.example/token'',
      ''OIDC_RP_CLIENT_ID'' \<mapsto> PStr ''rp'',
      ''OIDC_RP_CLIENT_SECRET'' \<mapsto> PStr ''secret'',
      ''OIDC_EXEMPT_URLS'' \<mapsto> PList [PStr ''/health/''],
      ''OIDC_RENEW_ID_TOKEN_EXPIRY_SECONDS'' \<mapsto> PInt 900]"

fun join_amp :: "string list \<Rightarrow> string" where
  "join_amp [] = []"
| "join_amp [x] = x"
| "join_amp (x # y # zs) = x @ ''&'' @ join_amp (y # zs)"

definition sample_urlencode :: "params \<Rightarrow> string" where
  "sample_urlencode ps =
     join_amp (map (\<lambda>(k, v). k @ ''='' @ (case v of PStr s \<Rightarrow> s | _ \<Rightarrow> ''?'')) ps)"

definition sample_tokens :: "string \<rightharpoonup> pyval" where
  "sample_tokens =
     [''id_token'' \<mapsto> PStr ''id2'',
      ''access_token'' \<mapsto> PStr ''access2'',
      ''refresh_token'' \<mapsto> PStr ''refresh2'']"

definition sample_env :: env where
  "sample_env =
     \<lparr>settings = sample_settings,
      clock = (\<lambda>k. 1000 + real k),
      random_string = (\<lambda>k n. replicate n (if k = 0 then CHR ''a'' else CHR ''b'')),
      reverse = map_of [(''oidc_authentication_init'', ''/oidc/authenticate/''),
                        (''oidc_authentication_callback'', ''/oidc/callback/''),
                        (''oidc_logout'', ''/oidc/logout/'')],
      import_string = (\<lambda>p. if p = OIDCAuthenticationBackend
                                 \<or> p = ''django.contrib.auth.backends.ModelBackend''
                              then Some p else None),
      issubclass = (\<lambda>c d. c = d),
      absolutify = (\<lambda>orig p. orig @ p),
      add_state_and_nonce_to_session = (\<lambda>s state ps. s(''oidc_state'' \<mapsto> PStr state)),
      urlencode = sample_urlencode,
      py_str = (\<lambda>v. ''?''),
      store_expiration_times = (\<lambda>s. s(''oidc_id_token_expiration'' \<mapsto> PFloat 2000)),
      store_tokens = (\<lambda>s access_token id_token refresh_token.
                        s(''oidc_access_token'' \<mapsto> access_token,
                          ''oidc_id_token'' \<mapsto> id_token,
                          ''oidc_refresh_token'' \<mapsto> refresh_token)),
      django_logout = (\<lambda>r. r\<lparr>user_is_authenticated := False, session := Map.empty\<rparr>),
      requests_post = (\<lambda>url payload. Response 200 (JsonObject sample_tokens))\<rparr>"

definition sample_session :: session where
  "sample_session =
     [BACKEND_SESSION_KEY \<mapsto> PStr OIDCAuthenticationBackend,
      ''oidc_id_token_expiration'' \<mapsto> PFloat 500,
      ''oidc_refresh_token'' \<mapsto> PStr ''refresh1'']"

definition sample_request :: request where
  "sample_request =
     \<lparr>method = ''GET'',
      path = ''/dashboard'',
      full_path = ''/dashboard?tab=1'',
      is_ajax = False,
      origin = ''https://rp.example'',
      user_is_authenticated = True,
      session = sample_session\<rparr>"

definition sample_world :: world where
  "sample_world = \<lparr>req = sample_request, ticks = 0, draws = 0, posts = []\<rparr>"


section \<open>Arithmetic of session and settings values\<close>

lemma num_of_truthy: "num_of v = Some r \<Longrightarrow> truthy v = (r \<noteq> 0)"
  by (cases v) (auto split: if_splits)

lemma num_sub_num:
  "num_of a = Some x \<Longrightarrow> num_of b = Some y \<Longrightarrow>
   \<exists>c. num_sub a b = Inr c \<and> num_of c = Some (x - y)"
  by (cases a; cases b) (auto simp: num_sub_def split: if_splits)

lemma num_add_num:
  "num_of a = Some x \<Longrightarrow> num_of b = Some y \<Longrightarrow>
   \<exists>c. num_add a b = Inr c \<and> num_of c = Some (x + y)"
  by (cases a; cases b) (auto simp: num_add_def split: if_splits)

lemmas sample_defs =
  sample_env_def sample_settings_def sample_world_def sample_request_def sample_session_def
  sample_tokens_def sample_urlencode_def BACKEND_SESSION_KEY_def OIDCAuthenticationBackend_def


section \<open>The Freshness Evaluator\<close>

text \<open>
  C1. \<open>is_expired\<close> reads \<open>oidc_id_token_expiration\<close> from the session with the default 0,
  reads the clock exactly once, and returns False ("valid") iff the expiration \<open>e\<close> is
  strictly greater than that one clock reading. Hence an absent expiration counts as 0, a
  past expiration yields True ("expired"), and so does an absent or zero one, the clock
  being Unix time (not before the epoch). The expiration is a number when present, as
  the data model has it.
\<close>

theorem is_expired_correct:
  assumes "num_of (dict_get_default (session (req w)) ''oidc_id_token_expiration'' (PInt 0))
             = Some e"
  shows "is_expired env w = (Inr (\<not> clock env (ticks w) < e), w\<lparr>ticks := Suc (ticks w)\<rparr>)
       \<and> (session (req w) ''oidc_id_token_expiration'' = None \<longrightarrow> e = 0)
       \<and> (e \<le> clock env (ticks w) \<longrightarrow> fst (is_expired env w) = Inr True)
       \<and> (e = 0 \<and> 0 \<le> clock env (ticks w) \<longrightarrow> fst (is_expired env w) = Inr True)"
  using assms
  by (auto simp: is_expired_def time_time_def gt_float_def dict_get_default_def
           split: option.splits)

theorem is_expired_correct_witness:
  "is_expired sample_env sample_world = (Inr True, sample_world\<lparr>ticks := 1\<rparr>)
   \<and> is_expired sample_env
        (sample_world\<lparr>req := sample_request\<lparr>session := Map.empty\<rparr>\<rparr>)
       = (Inr True, sample_world\<lparr>req := sample_request\<lparr>session := Map.empty\<rparr>, ticks := 1\<rparr>)
   \<and> is_expired sample_env
        (sample_world\<lparr>req := sample_request\<lparr>session := [''oidc_id_token_expiration'' \<mapsto> PInt 5000]\<rparr>\<rparr>)
       = (Inr False,
          sample_world\<lparr>req := sample_request\<lparr>session := [''oidc_id_token_expiration'' \<mapsto> PInt 5000]\<rparr>,
                         ticks := 1\<rparr>)"
proof -
  have past: "num_of (dict_get_default (session (req sample_world))
                        ''oidc_id_token_expiration'' (PInt 0)) = Some 500"
    by (simp add: sample_defs dict_get_default_def)
  have absent: "num_of (dict_get_default
                  (session (req (sample_world\<lparr>req := sample_request\<lparr>session := Map.empty\<rparr>\<rparr>)))
                  ''oidc_id_token_expiration'' (PInt 0)) = Some 0"
    by (simp add: dict_get_default_def)
  have future: "num_of (dict_get_default
                  (session (req (sample_world\<lparr>req := sample_request
                      \<lparr>session := [''oidc_id_token_expiration'' \<mapsto> PInt 5000]\<rparr>\<rparr>)))
                  ''oidc_id_token_expiration'' (PInt 0)) = Some 5000"
    by (simp add: dict_get_default_def)
  show ?thesis
    using is_expired_correct [OF past, of sample_env]
          is_expired_correct [OF absent, of sample_env]
          is_expired_correct [OF future, of sample_env]
    by (simp add: sample_env_def sample_world_def)
qed


section \<open>The refresh token's own expiry\<close>

text \<open>
  C2. \<open>_is_refresh_token_expired\<close>: when \<open>OIDC_RENEW_REFRESH_TOKEN_EXPIRY_SECONDS\<close> is unset
  or zero (or any other false value) the refresh token is never considered expired, and
  the clock is not read. When it is a number \<open>r\<close> other than zero, with the required
  \<open>OIDC_RENEW_ID_TOKEN_EXPIRY_SECONDS\<close> a number \<open>i\<close> and the session's expiration
  (default 0) a number \<open>e\<close>, the refresh token is considered expired iff
  \<open>e - i + r \<le> now\<close>, for the one clock reading \<open>now\<close> the call makes.
\<close>

theorem is_refresh_token_expired_correct:
  "(\<not> truthy (import_from_settings_default env
                 ''OIDC_RENEW_REFRESH_TOKEN_EXPIRY_SECONDS'' (PInt 0))
      \<longrightarrow> is_refresh_token_expired env w = (Inr False, w))
 \<and> (num_of (import_from_settings_default env
               ''OIDC_RENEW_REFRESH_TOKEN_EXPIRY_SECONDS'' (PInt 0)) = Some r
      \<and> r \<noteq> 0
      \<and> settings env ''OIDC_RENEW_ID_TOKEN_EXPIRY_SECONDS'' = Some v \<and> num_of v = Some i
      \<and> num_of (dict_get_default (session (req w)) ''oidc_id_token_expiration'' (PInt 0))
          = Some e
      \<longrightarrow> is_refresh_token_expired env w =
            (Inr (e - i + r \<le> clock env (ticks w)), w\<lparr>ticks := Suc (ticks w)\<rparr>))"
proof (intro conjI impI)
  assume "\<not> truthy (import_from_settings_default env
                      ''OIDC_RENEW_REFRESH_TOKEN_EXPIRY_SECONDS'' (PInt 0))"
  then show "is_refresh_token_expired env w = (Inr False, w)"
    by (simp add: is_refresh_token_expired_def)
next
  let ?x = "import_from_settings_default env
              ''OIDC_RENEW_REFRESH_TOKEN_EXPIRY_SECONDS'' (PInt 0)"
  let ?s = "dict_get_default (session (req w)) ''oidc_id_token_expiration'' (PInt 0)"
  assume h: "num_of ?x = Some r \<and> r \<noteq> 0
      \<and> settings env ''OIDC_RENEW_ID_TOKEN_EXPIRY_SECONDS'' = Some v \<and> num_of v = Some i
      \<and> num_of ?s = Some e"
  then have t: "truthy ?x"
    by (simp add: num_of_truthy)
  from h obtain d where d: "num_sub ?s v = Inr d" "num_of d = Some (e - i)"
    using num_sub_num by blast
  from h d obtain c where c: "num_add d ?x = Inr c" "num_of c = Some (e - i + r)"
    using num_add_num by blast
  show "is_refresh_token_expired env w =
          (Inr (e - i + r \<le> clock env (ticks w)), w\<lparr>ticks := Suc (ticks w)\<rparr>)"
    using h t d c
    by (auto simp: is_refresh_token_expired_def import_from_settings_def time_time_def
                   gt_float_def)
qed

end
